theory Spec2Isabelle
  imports Complex_Main
begin

section \<open>Fuel stations: tanks, stations, registry and the bulk price update\<close>

text \<open>
  A shallow embedding of \<^verbatim>\<open>src/app.py\<close> and \<^verbatim>\<open>src/api_server.py\<close>. The two files
  define the same \<^verbatim>\<open>Serbatoio\<close>, the same \<^verbatim>\<open>Distributore.set_prezzo\<close>, the same seed list
  and the same bulk price update; they differ in \<^verbatim>\<open>to_dict\<close> and in what the levels
  endpoints serialise.

  Numbers. Python's \<^verbatim>\<open>float\<close> (and the \<^verbatim>\<open>int\<close> literals of the seed list, which the
  float-annotated fields hold) are modelled by \<^typ>\<open>real\<close>: comparison, addition,
  subtraction and division are the exact ones, and rounding is left out. The tank's two
  mutators are modelled a second time on floats with the infinities and NaN
  (\<open>aggiungi_float\<close>, \<open>preleva_float\<close>), where the invariant of the level is decided; on
  finite values the two models agree.

  Methods of a mutable object take the object and return what the call did (a value or a
  raised exception) together with the object after the call.
\<close>

subsection \<open>Exceptions and outcomes\<close>

datatype error =
    ValueError string
  | TypeError
  | KeyError string
  | OverflowError

datatype 'a outcome = Returns 'a | Raises error

subsection \<open>Serbatoio\<close>

record Serbatoio =
  capacita :: real
  livello :: real

text \<open>Python's \<^verbatim>\<open>min(a, b)\<close>: the first argument unless the second is smaller.\<close>

definition py_min :: "real \<Rightarrow> real \<Rightarrow> real" where
  "py_min a b = (if b < a then b else a)"

definition aggiungi :: "real \<Rightarrow> Serbatoio \<Rightarrow> unit outcome \<times> Serbatoio" where
  "aggiungi quantita self =
     (if quantita < 0 then (Raises (ValueError ''quantita negativa''), self)
      else (Returns (),
            self\<lparr>livello := py_min (capacita self) (livello self + quantita)\<rparr>))"

definition preleva :: "real \<Rightarrow> Serbatoio \<Rightarrow> unit outcome \<times> Serbatoio" where
  "preleva quantita self =
     (if quantita < 0 then (Raises (ValueError ''quantita negativa''), self)
      else if quantita > livello self then (Raises (ValueError ''livello insufficiente''), self)
      else (Returns (), self\<lparr>livello := livello self - quantita\<rparr>))"

definition percentuale :: "Serbatoio \<Rightarrow> real \<times> Serbatoio" where
  "percentuale self =
     (if capacita self = 0 then (0, self)
      else ((livello self / capacita self) * 100, self))"

subsection \<open>Serbatoio on floats with infinities and NaN\<close>

text \<open>
  A Python float: a finite value, an infinity or NaN. Comparisons with NaN are false,
  an infinity minus itself is NaN; a finite sum is the exact one.
\<close>

datatype pyfloat = Fin real | PInf | NInf | NaN

fun f_lt :: "pyfloat \<Rightarrow> pyfloat \<Rightarrow> bool" where
  "f_lt (Fin a) (Fin b) = (a < b)"
| "f_lt (Fin a) PInf = True"
| "f_lt NInf (Fin b) = True"
| "f_lt NInf PInf = True"
| "f_lt _ _ = False"

fun f_le :: "pyfloat \<Rightarrow> pyfloat \<Rightarrow> bool" where
  "f_le (Fin a) (Fin b) = (a \<le> b)"
| "f_le NaN _ = False"
| "f_le _ NaN = False"
| "f_le NInf _ = True"
| "f_le _ PInf = True"
| "f_le _ _ = False"

fun f_neg :: "pyfloat \<Rightarrow> pyfloat" where
  "f_neg (Fin a) = Fin (- a)"
| "f_neg PInf = NInf"
| "f_neg NInf = PInf"
| "f_neg NaN = NaN"

fun f_add :: "pyfloat \<Rightarrow> pyfloat \<Rightarrow> pyfloat" where
  "f_add (Fin a) (Fin b) = Fin (a + b)"
| "f_add NaN _ = NaN"
| "f_add _ NaN = NaN"
| "f_add PInf NInf = NaN"
| "f_add NInf PInf = NaN"
| "f_add PInf _ = PInf"
| "f_add _ PInf = PInf"
| "f_add NInf _ = NInf"
| "f_add _ NInf = NInf"

definition f_sub :: "pyfloat \<Rightarrow> pyfloat \<Rightarrow> pyfloat" where
  "f_sub x y = f_add x (f_neg y)"

text \<open>Python's \<^verbatim>\<open>min(a, b)\<close> on floats.\<close>

definition f_min :: "pyfloat \<Rightarrow> pyfloat \<Rightarrow> pyfloat" where
  "f_min a b = (if f_lt b a then b else a)"

text \<open>The tank with float fields, and \<^verbatim>\<open>aggiungi\<close> and \<^verbatim>\<open>preleva\<close> on it:
  \<^verbatim>\<open>quantita > self.livello\<close> is \<open>f_lt (livello_float self) quantita\<close>.\<close>

record Serbatoio_float =
  capacita_float :: pyfloat
  livello_float :: pyfloat

definition aggiungi_float ::
  "pyfloat \<Rightarrow> Serbatoio_float \<Rightarrow> unit outcome \<times> Serbatoio_float" where
  "aggiungi_float quantita self =
     (if f_lt quantita (Fin 0) then (Raises (ValueError ''quantita negativa''), self)
      else (Returns (),
            self\<lparr>livello_float :=
                   f_min (capacita_float self) (f_add (livello_float self) quantita)\<rparr>))"

definition preleva_float ::
  "pyfloat \<Rightarrow> Serbatoio_float \<Rightarrow> unit outcome \<times> Serbatoio_float" where
  "preleva_float quantita self =
     (if f_lt quantita (Fin 0) then (Raises (ValueError ''quantita negativa''), self)
      else if f_lt (livello_float self) quantita
        then (Raises (ValueError ''livello insufficiente''), self)
      else (Returns (), self\<lparr>livello_float := f_sub (livello_float self) quantita\<rparr>))"

text \<open>
  A caller's sequence of \<^verbatim>\<open>aggiungi\<close>/\<^verbatim>\<open>preleva\<close> calls on one tank. A call that raises
  is caught by the caller and the sequence goes on with the tank as the call left it.
\<close>

datatype chiamata = Aggiungi pyfloat | Preleva pyfloat

fun esegui :: "chiamata \<Rightarrow> Serbatoio_float \<Rightarrow> Serbatoio_float" where
  "esegui (Aggiungi q) s = snd (aggiungi_float q s)"
| "esegui (Preleva q) s = snd (preleva_float q s)"

definition esegui_tutte :: "chiamata list \<Rightarrow> Serbatoio_float \<Rightarrow> Serbatoio_float" where
  "esegui_tutte cs s = fold esegui cs s"

text \<open>The invariant of the data model, with Python's \<^verbatim>\<open><=\<close>: \<^verbatim>\<open>0 <= level <= capacity\<close>.\<close>

definition livello_valido :: "Serbatoio_float \<Rightarrow> bool" where
  "livello_valido s =
     (f_le (Fin 0) (livello_float s) \<and> f_le (livello_float s) (capacita_float s))"

fun quantita_di :: "chiamata \<Rightarrow> pyfloat" where
  "quantita_di (Aggiungi q) = q"
| "quantita_di (Preleva q) = q"

text \<open>A tank with finite fields, as a float tank.\<close>

definition finito :: "Serbatoio \<Rightarrow> Serbatoio_float" where
  "finito s = \<lparr>capacita_float = Fin (capacita s), livello_float = Fin (livello s)\<rparr>"

subsection \<open>Distributore\<close>

text \<open>The field \<^verbatim>\<open>id\<close> of the source is \<open>id'\<close> here (\<open>id\<close> is HOL's identity).\<close>

record Distributore =
  id' :: int
  nome :: string
  provincia :: string
  indirizzo :: string
  lat :: real
  lon :: real
  serbatoio_benzina :: Serbatoio
  serbatoio_diesel :: Serbatoio
  prezzo_benzina :: real
  prezzo_diesel :: real

definition set_prezzo :: "string \<Rightarrow> real \<Rightarrow> Distributore \<Rightarrow> unit outcome \<times> Distributore" where
  "set_prezzo tipo nuovo_prezzo self =
     (if nuovo_prezzo < 0 then (Raises (ValueError ''Prezzo negativo''), self)
      else if tipo = ''benzina'' then (Returns (), self\<lparr>prezzo_benzina := nuovo_prezzo\<rparr>)
      else if tipo = ''diesel'' then (Returns (), self\<lparr>prezzo_diesel := nuovo_prezzo\<rparr>)
      else (Raises (ValueError ''Tipo carburante sconosciuto''), self))"

subsection \<open>JSON values and HTTP responses\<close>

text \<open>
  What \<^verbatim>\<open>request.get_json(silent=True)\<close> returns and what \<^verbatim>\<open>jsonify\<close> takes: \<open>JNull\<close>
  is Python's \<^verbatim>\<open>None\<close> (also the result for a missing or malformed body), \<open>JObj\<close> a
  \<^verbatim>\<open>dict\<close> given by its items.
\<close>

datatype json =
    JNull
  | JBool bool
  | JInt int
  | JFloat real
  | JStr string
  | JArr "json list"
  | JObj "(string \<times> json) list"

text \<open>
  A handler either returns a response (status, body) or lets an exception escape, which
  Flask answers with HTTP 500.
\<close>

datatype risposta = Risposta nat json | NonGestita error

fun status :: "risposta \<Rightarrow> nat" where
  "status (Risposta n _) = n"
| "status (NonGestita _) = 500"

definition errore :: "string \<Rightarrow> json" where
  "errore msg = JObj [(''error'', JStr msg)]"

subsection \<open>The registry and the levels endpoints\<close>

definition distributori :: "Distributore list" where
  "distributori =
     [\<lparr>id' = 1, nome = ''IPERSTAR Ovest'', provincia = ''MI'',
       indirizzo = ''Via Roma 10, Milano'', lat = 45.4642, lon = 9.1900,
       serbatoio_benzina = \<lparr>capacita = 10000, livello = 7000\<rparr>,
       serbatoio_diesel = \<lparr>capacita = 12000, livello = 9000\<rparr>,
       prezzo_benzina = 1.90, prezzo_diesel = 1.80\<rparr>,
      \<lparr>id' = 2, nome = ''IPERSTAR Sud'', provincia = ''MI'',
       indirizzo = ''Piazza Duomo 1, Milano'', lat = 45.4643, lon = 9.1910,
       serbatoio_benzina = \<lparr>capacita = 8000, livello = 2000\<rparr>,
       serbatoio_diesel = \<lparr>capacita = 10000, livello = 4000\<rparr>,
       prezzo_benzina = 1.92, prezzo_diesel = 1.82\<rparr>,
      \<lparr>id' = 3, nome = ''IPERSTAR Nord'', provincia = ''TO'',
       indirizzo = ''Corso Francia 2, Torino'', lat = 45.0703, lon = 7.6869,
       serbatoio_benzina = \<lparr>capacita = 9000, livello = 9000\<rparr>,
       serbatoio_diesel = \<lparr>capacita = 11000, livello = 5000\<rparr>,
       prezzo_benzina = 1.95, prezzo_diesel = 1.85\<rparr>]"

text \<open>\<^verbatim>\<open>str.lower()\<close> on ASCII text: the letters A to Z are lowered, every other
  character stays.\<close>

definition lower_char :: "char \<Rightarrow> char" where
  "lower_char c =
     (case map_of (zip ''ABCDEFGHIJKLMNOPQRSTUVWXYZ'' ''abcdefghijklmnopqrstuvwxyz'') c of
        Some l \<Rightarrow> l
      | None \<Rightarrow> c)"

definition lower :: "string \<Rightarrow> string" where
  "lower s = map lower_char s"

text \<open>The test of both comprehensions and of the update loop:
  \<^verbatim>\<open>d.provincia.lower() == provincia.lower()\<close>.\<close>

definition stessa_provincia :: "string \<Rightarrow> Distributore \<Rightarrow> bool" where
  "stessa_provincia prov d = (lower (provincia d) = lower prov)"

text \<open>The dict that \<^verbatim>\<open>api_livelli_provincia\<close> of \<^verbatim>\<open>app.py\<close> builds for one station.\<close>

definition livelli_view :: "Distributore \<Rightarrow> json" where
  "livelli_view d = JObj
     [(''id'', JInt (id' d)),
      (''nome'', JStr (nome d)),
      (''livello_benzina'', JFloat (livello (serbatoio_benzina d))),
      (''capacita_benzina'', JFloat (capacita (serbatoio_benzina d))),
      (''percent_benzina'', JFloat (fst (percentuale (serbatoio_benzina d)))),
      (''livello_diesel'', JFloat (livello (serbatoio_diesel d))),
      (''capacita_diesel'', JFloat (capacita (serbatoio_diesel d))),
      (''percent_diesel'', JFloat (fst (percentuale (serbatoio_diesel d))))]"

text \<open>\<^verbatim>\<open>Distributore.to_dict\<close> of \<^verbatim>\<open>api_server.py\<close>.\<close>

definition to_dict_api_server :: "Distributore \<Rightarrow> json" where
  "to_dict_api_server self = JObj
     [(''id'', JInt (id' self)),
      (''nome'', JStr (nome self)),
      (''provincia'', JStr (provincia self)),
      (''indirizzo'', JStr (indirizzo self)),
      (''lat'', JFloat (lat self)),
      (''lon'', JFloat (lon self)),
      (''prezzo_benzina'', JFloat (prezzo_benzina self)),
      (''prezzo_diesel'', JFloat (prezzo_diesel self)),
      (''livello_benzina'', JFloat (livello (serbatoio_benzina self))),
      (''capacita_benzina'', JFloat (capacita (serbatoio_benzina self))),
      (''percent_benzina'', JFloat (fst (percentuale (serbatoio_benzina self)))),
      (''livello_diesel'', JFloat (livello (serbatoio_diesel self))),
      (''capacita_diesel'', JFloat (capacita (serbatoio_diesel self))),
      (''percent_diesel'', JFloat (fst (percentuale (serbatoio_diesel self))))]"

text \<open>\<^verbatim>\<open>api_livelli_provincia\<close> of \<^verbatim>\<open>app.py\<close>: the response and the registry after it.\<close>

definition api_livelli_provincia ::
  "string \<Rightarrow> Distributore list \<Rightarrow> risposta \<times> Distributore list" where
  "api_livelli_provincia prov reg =
     (let selezionati = filter (stessa_provincia prov) reg in
      if selezionati = [] then (Risposta 200 (JArr []), reg)
      else (Risposta 200 (JArr (map livelli_view selezionati)), reg))"

text \<open>\<^verbatim>\<open>api_livelli_provincia\<close> of \<^verbatim>\<open>api_server.py\<close>.\<close>

definition api_livelli_provincia_api_server ::
  "string \<Rightarrow> Distributore list \<Rightarrow> risposta \<times> Distributore list" where
  "api_livelli_provincia_api_server prov reg =
     (let selezionati = filter (stessa_provincia prov) reg in
      (Risposta 200 (JArr (map to_dict_api_server selezionati)), reg))"

text \<open>The keys of a serialised object, in order.\<close>

fun chiavi :: "json \<Rightarrow> string list" where
  "chiavi (JObj kvs) = map fst kvs"
| "chiavi _ = []"

subsection \<open>The bulk price update\<close>

text \<open>Python's truth value of a parsed body (\<^verbatim>\<open>if not data\<close>).\<close>

fun truthy :: "json \<Rightarrow> bool" where
  "truthy JNull = False"
| "truthy (JBool b) = b"
| "truthy (JInt i) = (i \<noteq> 0)"
| "truthy (JFloat r) = (r \<noteq> 0)"
| "truthy (JStr s) = (s \<noteq> [])"
| "truthy (JArr xs) = (xs \<noteq> [])"
| "truthy (JObj kvs) = (kvs \<noteq> [])"

fun is_substring :: "string \<Rightarrow> string \<Rightarrow> bool" where
  "is_substring k [] = (k = [])"
| "is_substring k (c # s) = (take (length k) (c # s) = k \<or> is_substring k s)"

text \<open>
  \<^verbatim>\<open>chiave in data\<close>: a key of a dict, an element of a list, a substring of a string;
  a TypeError on \<^verbatim>\<open>None\<close>, a bool or a number.
\<close>

fun py_contains :: "string \<Rightarrow> json \<Rightarrow> bool outcome" where
  "py_contains k (JObj kvs) = Returns (k \<in> set (map fst kvs))"
| "py_contains k (JArr xs) = Returns (JStr k \<in> set xs)"
| "py_contains k (JStr s) = Returns (is_substring k s)"
| "py_contains k _ = Raises TypeError"

text \<open>\<^verbatim>\<open>data[chiave]\<close> with a string key: the value in a dict, a TypeError on anything
  else.\<close>

fun py_getitem :: "json \<Rightarrow> string \<Rightarrow> json outcome" where
  "py_getitem (JObj kvs) k =
     (case map_of kvs k of None \<Rightarrow> Raises (KeyError k) | Some v \<Rightarrow> Returns v)"
| "py_getitem _ k = Raises TypeError"

text \<open>
  \<^verbatim>\<open>float(i)\<close> on an \<^verbatim>\<open>int\<close> raises OverflowError when \<open>i\<close> rounds beyond the largest
  double, that is from \<open>2 ^ 1024 - 2 ^ 970\<close> on in absolute value.
\<close>

definition float_int_limit :: int where
  "float_int_limit = 2 ^ 1024 - 2 ^ 970"

text \<open>
  \<^verbatim>\<open>float(v)\<close> on a parsed JSON value. What \<^verbatim>\<open>float\<close> makes of a string is the
  interpreter's grammar of float literals, not code of this repository: it is the
  parameter \<open>float_str\<close> (\<open>None\<close> when \<^verbatim>\<open>float\<close> raises ValueError).
\<close>

fun py_float :: "(string \<Rightarrow> real option) \<Rightarrow> json \<Rightarrow> real outcome" where
  "py_float float_str JNull = Raises TypeError"
| "py_float float_str (JBool b) = Returns (if b then 1 else 0)"
| "py_float float_str (JInt i) =
     (if \<bar>i\<bar> < float_int_limit then Returns (of_int i) else Raises OverflowError)"
| "py_float float_str (JFloat r) = Returns r"
| "py_float float_str (JStr s) =
     (case float_str s of
        None \<Rightarrow> Raises (ValueError ''could not convert string to float'')
      | Some r \<Rightarrow> Returns r)"
| "py_float float_str (JArr xs) = Raises TypeError"
| "py_float float_str (JObj kvs) = Raises TypeError"

text \<open>\<^verbatim>\<open>nuovi_prezzi[chiave] = v\<close> on a dict given by its items.\<close>

fun dict_set :: "string \<Rightarrow> real \<Rightarrow> (string \<times> real) list \<Rightarrow> (string \<times> real) list" where
  "dict_set k v [] = [(k, v)]"
| "dict_set k v ((k', v') # kvs) =
     (if k = k' then (k, v) # kvs else (k', v') # dict_set k v kvs)"

text \<open>
  One of the two blocks \<^verbatim>\<open>if chiave in data: try: nuovi_prezzi[chiave] = float(data[chiave])
  except Exception: return ..., 400\<close>. The membership test is outside the \<^verbatim>\<open>try\<close>, the
  subscript and the conversion are inside.
\<close>

definition leggi_prezzo ::
  "(string \<Rightarrow> real option) \<Rightarrow> string \<Rightarrow> json \<Rightarrow> (string \<times> real) list
     \<Rightarrow> risposta + (string \<times> real) list" where
  "leggi_prezzo float_str chiave data nuovi_prezzi =
     (case py_contains chiave data of
        Raises e \<Rightarrow> Inl (NonGestita e)
      | Returns presente \<Rightarrow>
          if \<not> presente then Inr nuovi_prezzi
          else (case py_getitem data chiave of
                  Raises e \<Rightarrow> Inl (Risposta 400 (errore (''Prezzo '' @ chiave @ '' non valido'')))
                | Returns v \<Rightarrow>
                    (case py_float float_str v of
                       Raises e \<Rightarrow>
                         Inl (Risposta 400 (errore (''Prezzo '' @ chiave @ '' non valido'')))
                     | Returns x \<Rightarrow> Inr (dict_set chiave x nuovi_prezzi))))"

text \<open>The part of \<^verbatim>\<open>api_cambia_prezzi_provincia\<close> before the loop: an early response, or
  \<^verbatim>\<open>nuovi_prezzi\<close>.\<close>

definition valida ::
  "(string \<Rightarrow> real option) \<Rightarrow> json \<Rightarrow> risposta + (string \<times> real) list" where
  "valida float_str data =
     (if \<not> truthy data then Inl (Risposta 400 (errore ''Richiesta JSON mancante''))
      else (case leggi_prezzo float_str ''benzina'' data [] of
              Inl r \<Rightarrow> Inl r
            | Inr np1 \<Rightarrow>
                (case leggi_prezzo float_str ''diesel'' data np1 of
                   Inl r \<Rightarrow> Inl r
                 | Inr np2 \<Rightarrow>
                     if np2 = [] then Inl (Risposta 400 (errore ''Nessun prezzo fornito''))
                     else Inr np2)))"

text \<open>The body of the loop for a station of the province, up to the first exception.\<close>

definition applica_prezzi ::
  "(string \<times> real) list \<Rightarrow> Distributore \<Rightarrow> unit outcome \<times> Distributore" where
  "applica_prezzi nuovi_prezzi d =
     (case (case map_of nuovi_prezzi ''benzina'' of
              None \<Rightarrow> (Returns (), d)
            | Some p \<Rightarrow> set_prezzo ''benzina'' p d) of
        (Raises e, d1) \<Rightarrow> (Raises e, d1)
      | (Returns u, d1) \<Rightarrow>
          (case map_of nuovi_prezzi ''diesel'' of
             None \<Rightarrow> (Returns (), d1)
           | Some p \<Rightarrow> set_prezzo ''diesel'' p d1))"

text \<open>
  The loop over the registry: the exception that stopped it (if any), the registry as the
  loop left it, and \<^verbatim>\<open>aggiornati\<close>.
\<close>

fun ciclo ::
  "string \<Rightarrow> (string \<times> real) list \<Rightarrow> Distributore list
     \<Rightarrow> error option \<times> Distributore list \<times> int list" where
  "ciclo prov np [] = (None, [], [])"
| "ciclo prov np (d # ds) =
     (if stessa_provincia prov d then
        (case applica_prezzi np d of
           (Raises e, d1) \<Rightarrow> (Some e, d1 # ds, [])
         | (Returns u, d1) \<Rightarrow>
             (case ciclo prov np ds of (e, ds1, ids) \<Rightarrow> (e, d1 # ds1, id' d # ids)))
      else (case ciclo prov np ds of (e, ds1, ids) \<Rightarrow> (e, d # ds1, ids)))"

definition api_cambia_prezzi_provincia ::
  "(string \<Rightarrow> real option) \<Rightarrow> json \<Rightarrow> string \<Rightarrow> Distributore list
     \<Rightarrow> risposta \<times> Distributore list" where
  "api_cambia_prezzi_provincia float_str data prov reg =
     (case valida float_str data of
        Inl r \<Rightarrow> (r, reg)
      | Inr nuovi_prezzi \<Rightarrow>
          (case ciclo prov nuovi_prezzi reg of
             (Some e, reg1, ids) \<Rightarrow> (NonGestita e, reg1)
           | (None, reg1, aggiornati) \<Rightarrow>
               (Risposta 200 (JObj [(''aggiornati'', JArr (map JInt aggiornati))]), reg1)))"

subsection \<open>Vocabulary of the statements\<close>

text \<open>
  How the theorems speak about a request body \<open>JObj kvs\<close>. \<open>fornisce\<close>: the body supplies
  for the key a value that \<^verbatim>\<open>float\<close> converts to the non-negative price \<open>p\<close>, or (\<open>p = None\<close>)
  does not have the key.
\<close>

definition fornisce ::
  "(string \<Rightarrow> real option) \<Rightarrow> (string \<times> json) list \<Rightarrow> string \<Rightarrow> real option \<Rightarrow> bool" where
  "fornisce float_str kvs k p =
     (case map_of kvs k of
        None \<Rightarrow> p = None
      | Some jv \<Rightarrow>
          (case py_float float_str jv of
             Returns v \<Rightarrow> p = Some v \<and> 0 \<le> v
           | Raises e \<Rightarrow> False))"

text \<open>\<^verbatim>\<open>set_prezzo\<close> applied to a station for each price present, benzina first.\<close>

definition con_prezzi :: "real option \<Rightarrow> real option \<Rightarrow> Distributore \<Rightarrow> Distributore" where
  "con_prezzi pb pd d =
     (let d1 = (case pb of None \<Rightarrow> d | Some p \<Rightarrow> snd (set_prezzo ''benzina'' p d))
      in (case pd of None \<Rightarrow> d1 | Some p \<Rightarrow> snd (set_prezzo ''diesel'' p d1)))"

text \<open>A price that is absent or not negative.\<close>

definition non_negativi :: "real option \<Rightarrow> bool" where
  "non_negativi p = (case p of None \<Rightarrow> True | Some v \<Rightarrow> 0 \<le> v)"

text \<open>The body has the key and \<^verbatim>\<open>float\<close> raises on its value.\<close>

definition fallisce ::
  "(string \<Rightarrow> real option) \<Rightarrow> (string \<times> json) list \<Rightarrow> string \<Rightarrow> bool" where
  "fallisce float_str kvs k =
     (case map_of kvs k of
        None \<Rightarrow> False
      | Some jv \<Rightarrow> (case py_float float_str jv of Raises e \<Rightarrow> True | Returns v \<Rightarrow> False))"

text \<open>The float that the body's value for the key converts to, if it has the key and
  \<^verbatim>\<open>float\<close> returns.\<close>

definition convertito ::
  "(string \<Rightarrow> real option) \<Rightarrow> (string \<times> json) list \<Rightarrow> string \<Rightarrow> real option" where
  "convertito float_str kvs k =
     (case map_of kvs k of
        None \<Rightarrow> None
      | Some jv \<Rightarrow> (case py_float float_str jv of Raises e \<Rightarrow> None | Returns v \<Rightarrow> Some v))"

text \<open>The elements of a response whose body is an array.\<close>

fun elementi :: "risposta \<Rightarrow> json list" where
  "elementi (Risposta n (JArr xs)) = xs"
| "elementi _ = []"

text \<open>The items of a serialised object.\<close>

fun campi :: "json \<Rightarrow> (string \<times> json) list" where
  "campi (JObj kvs) = kvs"
| "campi _ = []"

text \<open>The prices that the body's values for benzina and diesel convert to, as the dict
  that the validation builds.\<close>

definition prezzi_convertiti ::
  "(string \<Rightarrow> real option) \<Rightarrow> (string \<times> json) list \<Rightarrow> (string \<times> real) list" where
  "prezzi_convertiti float_str kvs =
     (case convertito float_str kvs ''benzina'' of None \<Rightarrow> [] | Some x \<Rightarrow> [(''benzina'', x)])
     @ (case convertito float_str kvs ''diesel'' of None \<Rightarrow> [] | Some y \<Rightarrow> [(''diesel'', y)])"

subsection \<open>Facts about Serbatoio\<close>

lemma py_min_eq_min: "py_min a b = min a b"
  by (simp add: py_min_def min_def)

lemma aggiungi_float_finito:
  "aggiungi_float (Fin q) (finito s) = (fst (aggiungi q s), finito (snd (aggiungi q s)))"
  by (simp add: aggiungi_float_def aggiungi_def finito_def f_min_def py_min_def)

lemma preleva_float_finito:
  "preleva_float (Fin q) (finito s) = (fst (preleva q s), finito (snd (preleva q s)))"
  by (simp add: preleva_float_def preleva_def finito_def f_sub_def)

lemma esegui_capacita_float: "capacita_float (esegui c s) = capacita_float s"
  by (cases c) (simp_all add: aggiungi_float_def preleva_float_def)

lemma valido_finito:
  assumes "livello_valido s" and "capacita_float s \<noteq> PInf"
  obtains c l where "capacita_float s = Fin c" and "livello_float s = Fin l"
    and "0 \<le> l" and "l \<le> c"
  using assms
  by (cases "capacita_float s"; cases "livello_float s") (auto simp: livello_valido_def)

lemma esegui_livello_valido:
  assumes v: "livello_valido s" and c: "capacita_float s \<noteq> PInf" and q: "quantita_di ch \<noteq> NaN"
  shows "livello_valido (esegui ch s)"
proof -
  from v c obtain cp l where
    s: "capacita_float s = Fin cp" "livello_float s = Fin l" and b: "0 \<le> l" "l \<le> cp"
    by (rule valido_finito)
  show ?thesis
  proof (cases ch)
    case (Aggiungi x)
    with q s b show ?thesis
      by (cases x)
         (auto simp: aggiungi_float_def livello_valido_def f_min_def)
  next
    case (Preleva x)
    with q s b show ?thesis
      by (cases x)
         (auto simp: preleva_float_def livello_valido_def f_sub_def)
  qed
qed

text \<open>
  On a tank of finite capacity the invariant survives every sequence of calls none of
  whose amounts is NaN, and no call changes the capacity.
\<close>

lemma fold_esegui_invariante:
  assumes "livello_valido s" and "capacita_float s \<noteq> PInf"
      and "NaN \<notin> set (map quantita_di cs)"
  shows "livello_valido (fold esegui cs s)
       \<and> capacita_float (fold esegui cs s) = capacita_float s"
  using assms
proof (induction cs arbitrary: s)
  case Nil
  then show ?case by simp
next
  case (Cons c cs)
  from Cons.prems have q: "quantita_di c \<noteq> NaN" and r: "NaN \<notin> set (map quantita_di cs)"
    by auto
  from Cons.prems(1,2) q have v: "livello_valido (esegui c s)"
    by (rule esegui_livello_valido)
  from Cons.prems(2) have f: "capacita_float (esegui c s) \<noteq> PInf"
    by (simp add: esegui_capacita_float)
  from Cons.IH [OF v f r] show ?case
    by (simp add: esegui_capacita_float)
qed

text \<open>
  C1. The tank with capacity 10000 and level 7000 satisfies \<^verbatim>\<open>0 <= level <= capacity\<close>.
  \<^verbatim>\<open>preleva(float('nan'))\<close> passes both guards, since \<^verbatim>\<open>nan < 0\<close> and \<^verbatim>\<open>nan > 7000\<close> are
  false, and stores \<^verbatim>\<open>7000 - nan\<close>, which is NaN: after this one call neither
  \<^verbatim>\<open>0 <= level\<close> nor \<^verbatim>\<open>level <= capacity\<close> holds.
\<close>

theorem preleva_nan_breaks_invariant:
  "livello_valido \<lparr>capacita_float = Fin 10000, livello_float = Fin 7000\<rparr>
   \<and> preleva_float NaN \<lparr>capacita_float = Fin 10000, livello_float = Fin 7000\<rparr>
       = (Returns (), \<lparr>capacita_float = Fin 10000, livello_float = NaN\<rparr>)
   \<and> esegui_tutte [Preleva NaN] \<lparr>capacita_float = Fin 10000, livello_float = Fin 7000\<rparr>
       = \<lparr>capacita_float = Fin 10000, livello_float = NaN\<rparr>
   \<and> \<not> livello_valido
         (esegui_tutte [Preleva NaN] \<lparr>capacita_float = Fin 10000, livello_float = Fin 7000\<rparr>)
   \<and> \<not> f_le (Fin 0) NaN \<and> \<not> f_le NaN (Fin 10000)"
  by (simp add: livello_valido_def preleva_float_def esegui_tutte_def f_sub_def)

text \<open>
  C2. \<^verbatim>\<open>aggiungi\<close> raises \<^verbatim>\<open>ValueError("quantita negativa")\<close> (the spec's
  InvalidArgument) exactly when the amount is negative, and then the tank is as it was;
  otherwise it returns and the level is \<open>min capacity (level + amount)\<close>. With level
  7000, capacity 10000 and amount 5000 the level becomes 10000.
\<close>

theorem aggiungi_clamps:
  "((\<exists>e. fst (aggiungi q s) = Raises e) \<longleftrightarrow> q < 0)
   \<and> (q < 0 \<longrightarrow> aggiungi q s = (Raises (ValueError ''quantita negativa''), s))
   \<and> (\<not> q < 0 \<longrightarrow>
        aggiungi q s = (Returns (), s\<lparr>livello := min (capacita s) (livello s + q)\<rparr>))
   \<and> aggiungi 5000 \<lparr>capacita = 10000, livello = 7000\<rparr>
        = (Returns (), \<lparr>capacita = 10000, livello = 10000\<rparr>)"
  by (simp add: aggiungi_def py_min_eq_min)

theorem aggiungi_clamps_witness:
  "aggiungi (-1) \<lparr>capacita = 10000, livello = 7000\<rparr>
     = (Raises (ValueError ''quantita negativa''), \<lparr>capacita = 10000, livello = 7000\<rparr>)
   \<and> aggiungi 2000 \<lparr>capacita = 10000, livello = 7000\<rparr>
     = (Returns (), \<lparr>capacita = 10000, livello = 9000\<rparr>)
   \<and> aggiungi 5000 \<lparr>capacita = 10000, livello = 7000\<rparr>
     = (Returns (), \<lparr>capacita = 10000, livello = 10000\<rparr>)"
  using aggiungi_clamps [of "-1" "\<lparr>capacita = 10000, livello = 7000\<rparr>"]
        aggiungi_clamps [of 2000 "\<lparr>capacita = 10000, livello = 7000\<rparr>"]
  by simp

text \<open>
  C3. \<^verbatim>\<open>preleva\<close> raises \<^verbatim>\<open>ValueError("quantita negativa")\<close> (InvalidArgument) for a
  negative amount, \<^verbatim>\<open>ValueError("livello insufficiente")\<close> (InsufficientLevel) for a
  non-negative amount above the level, and otherwise returns with the level lowered by
  the amount; when it raises, the tank is as it was.
\<close>

theorem preleva_checks:
  "(q < 0 \<longrightarrow> preleva q s = (Raises (ValueError ''quantita negativa''), s))
   \<and> (0 \<le> q \<and> q > livello s \<longrightarrow>
        preleva q s = (Raises (ValueError ''livello insufficiente''), s))
   \<and> (0 \<le> q \<and> q \<le> livello s \<longrightarrow>
        preleva q s = (Returns (), s\<lparr>livello := livello s - q\<rparr>))"
  by (simp add: preleva_def)

theorem preleva_checks_witness:
  "preleva (-1) \<lparr>capacita = 10000, livello = 7000\<rparr>
     = (Raises (ValueError ''quantita negativa''), \<lparr>capacita = 10000, livello = 7000\<rparr>)
   \<and> preleva 7001 \<lparr>capacita = 10000, livello = 7000\<rparr>
     = (Raises (ValueError ''livello insufficiente''), \<lparr>capacita = 10000, livello = 7000\<rparr>)
   \<and> preleva 7000 \<lparr>capacita = 10000, livello = 7000\<rparr>
     = (Returns (), \<lparr>capacita = 10000, livello = 0\<rparr>)"
  using preleva_checks [of "-1" "\<lparr>capacita = 10000, livello = 7000\<rparr>"]
        preleva_checks [of 7001 "\<lparr>capacita = 10000, livello = 7000\<rparr>"]
        preleva_checks [of 7000 "\<lparr>capacita = 10000, livello = 7000\<rparr>"]
  by simp

text \<open>
  C9. \<^verbatim>\<open>percentuale\<close> returns 0 when the capacity is 0, whatever the level, and
  \<open>100 * level / capacity\<close> otherwise; the tank after the call is the tank before it.
\<close>

theorem percentuale_value:
  "(capacita s = 0 \<longrightarrow> fst (percentuale s) = 0)
   \<and> (capacita s \<noteq> 0 \<longrightarrow> fst (percentuale s) = 100 * livello s / capacita s)
   \<and> snd (percentuale s) = s"
  by (simp add: percentuale_def)

theorem percentuale_value_witness:
  "percentuale \<lparr>capacita = 0, livello = 42\<rparr> = (0, \<lparr>capacita = 0, livello = 42\<rparr>)
   \<and> percentuale \<lparr>capacita = 8000, livello = 2000\<rparr>
       = (25, \<lparr>capacita = 8000, livello = 2000\<rparr>)"
  using percentuale_value [of "\<lparr>capacita = 0, livello = 42\<rparr>"]
        percentuale_value [of "\<lparr>capacita = 8000, livello = 2000\<rparr>"]
  by (simp add: prod_eq_iff)

subsection \<open>Facts about the province test\<close>

lemma lower_char_idem: "lower_char (lower_char c) = lower_char c"
  by (simp add: lower_char_def)

lemma lower_idem: "lower (lower s) = lower s"
  by (simp add: lower_def lower_char_idem)

lemma stessa_provincia_lower: "stessa_provincia (lower prov) d = stessa_provincia prov d"
  by (simp add: stessa_provincia_def lower_idem)

lemma lower_seed:
  "lower ''MI'' = ''mi''" "lower ''TO'' = ''to''" "lower ''mi'' = ''mi''" "lower ''XX'' = ''xx''"
  by (simp_all add: lower_def lower_char_def)

subsection \<open>Facts about Distributore\<close>

text \<open>
  C4. \<^verbatim>\<open>set_prezzo\<close> raises \<^verbatim>\<open>ValueError("Prezzo negativo")\<close> (InvalidArgument) for a
  negative price, whatever the fuel kind, and \<^verbatim>\<open>ValueError("Tipo carburante sconosciuto")\<close>
  (UnknownFuelKind) for a non-negative price and a kind other than benzina and diesel; in
  both cases the station is as it was. For a non-negative price and a valid kind it returns
  and the station differs from the one before in the matching price field only.
\<close>

theorem set_prezzo_checks:
  "(p < 0 \<longrightarrow> set_prezzo tipo p d = (Raises (ValueError ''Prezzo negativo''), d))
   \<and> (0 \<le> p \<and> tipo \<noteq> ''benzina'' \<and> tipo \<noteq> ''diesel'' \<longrightarrow>
        set_prezzo tipo p d = (Raises (ValueError ''Tipo carburante sconosciuto''), d))
   \<and> (0 \<le> p \<longrightarrow> set_prezzo ''benzina'' p d = (Returns (), d\<lparr>prezzo_benzina := p\<rparr>))
   \<and> (0 \<le> p \<longrightarrow> set_prezzo ''diesel'' p d = (Returns (), d\<lparr>prezzo_diesel := p\<rparr>))"
  by (simp add: set_prezzo_def)

theorem set_prezzo_checks_witness:
  "set_prezzo ''benzina'' (-1) (hd distributori)
     = (Raises (ValueError ''Prezzo negativo''), hd distributori)
   \<and> set_prezzo ''gpl'' 2 (hd distributori)
     = (Raises (ValueError ''Tipo carburante sconosciuto''), hd distributori)
   \<and> set_prezzo ''benzina'' 2 (hd distributori)
     = (Returns (), (hd distributori)\<lparr>prezzo_benzina := 2\<rparr>)
   \<and> set_prezzo ''diesel'' 0 (hd distributori)
     = (Returns (), (hd distributori)\<lparr>prezzo_diesel := 0\<rparr>)
   \<and> prezzo_benzina (hd distributori) = 1.90"
  using set_prezzo_checks [of "-1" "''benzina''" "hd distributori"]
        set_prezzo_checks [of 2 "''gpl''" "hd distributori"]
        set_prezzo_checks [of 0 "''gpl''" "hd distributori"]
  by (simp add: distributori_def)

subsection \<open>Facts about the bulk price update\<close>

lemma leggi_prezzo_JObj:
  "leggi_prezzo fs k (JObj kvs) np =
     (case map_of kvs k of
        None \<Rightarrow> Inr np
      | Some jv \<Rightarrow>
          (case py_float fs jv of
             Raises e \<Rightarrow> Inl (Risposta 400 (errore (''Prezzo '' @ k @ '' non valido'')))
           | Returns x \<Rightarrow> Inr (dict_set k x np)))"
proof (cases "map_of kvs k")
  case None
  then have "k \<notin> set (map fst kvs)"
    by (simp add: map_of_eq_None_iff)
  with None show ?thesis
    by (simp add: leggi_prezzo_def)
next
  case (Some jv)
  then have "k \<in> set (map fst kvs)"
    by (metis map_of_eq_None_iff option.distinct(1) set_map)
  with Some show ?thesis
    by (simp add: leggi_prezzo_def)
qed

lemma applica_prezzi_ok:
  assumes "non_negativi (map_of np ''benzina'')" and "non_negativi (map_of np ''diesel'')"
  shows "applica_prezzi np d
           = (Returns (), con_prezzi (map_of np ''benzina'') (map_of np ''diesel'') d)"
  using assms
  by (auto simp: applica_prezzi_def con_prezzi_def non_negativi_def set_prezzo_def
           split: option.splits)

lemma ciclo_ok:
  assumes "non_negativi (map_of np ''benzina'')" and "non_negativi (map_of np ''diesel'')"
  shows "ciclo prov np reg =
           (None,
            map (\<lambda>d. if stessa_provincia prov d
                      then con_prezzi (map_of np ''benzina'') (map_of np ''diesel'') d else d) reg,
            map id' (filter (stessa_provincia prov) reg))"
proof (induction reg)
  case Nil
  show ?case by simp
next
  case (Cons d ds)
  show ?case
    by (simp add: Cons.IH applica_prezzi_ok [OF assms])
qed

lemma ciclo_nessuno:
  "filter (stessa_provincia prov) reg = [] \<Longrightarrow> ciclo prov np reg = (None, reg, [])"
  by (induction reg) (auto split: if_splits)

lemma valida_fornisce:
  assumes b: "fornisce fs kvs ''benzina'' pb"
      and d: "fornisce fs kvs ''diesel'' pd"
      and some: "pb \<noteq> None \<or> pd \<noteq> None"
  shows "\<exists>np. valida fs (JObj kvs) = Inr np
            \<and> map_of np ''benzina'' = pb \<and> map_of np ''diesel'' = pd"
proof -
  from b d some have ne: "kvs \<noteq> []"
    by (auto simp: fornisce_def)
  show ?thesis
    using b d some ne
    by (auto simp: valida_def leggi_prezzo_JObj fornisce_def
             split: option.splits outcome.splits)
qed

lemma con_prezzi_fields:
  assumes "non_negativi pb" and "non_negativi pd"
  shows "con_prezzi pb pd d =
           d\<lparr>prezzo_benzina := (case pb of None \<Rightarrow> prezzo_benzina d | Some p \<Rightarrow> p),
             prezzo_diesel := (case pd of None \<Rightarrow> prezzo_diesel d | Some p \<Rightarrow> p)\<rparr>"
  using assms
  by (auto simp: con_prezzi_def non_negativi_def set_prezzo_def split: option.splits)

lemma fornisce_non_negativi: "fornisce fs kvs k p \<Longrightarrow> non_negativi p"
  by (auto simp: fornisce_def non_negativi_def split: option.splits outcome.splits)

lemma api_ok:
  assumes v: "valida fs data = Inr np"
      and b: "non_negativi (map_of np ''benzina'')" and d: "non_negativi (map_of np ''diesel'')"
  shows "api_cambia_prezzi_provincia fs data prov reg =
     (Risposta 200
        (JObj [(''aggiornati'', JArr (map JInt (map id' (filter (stessa_provincia prov) reg))))]),
      map (\<lambda>s. if stessa_provincia prov s
                then con_prezzi (map_of np ''benzina'') (map_of np ''diesel'') s else s) reg)"
  by (simp add: api_cambia_prezzi_provincia_def v ciclo_ok [OF b d])

text \<open>
  C5. A body that supplies a valid numeric value (one that \<^verbatim>\<open>float\<close> converts to a
  non-negative number) for benzina, for diesel or for both: the response is HTTP 200 with
  \<^verbatim>\<open>aggiornati\<close> the ids of the stations whose province equals the code up to case, in
  registry order; each of those stations has had \<^verbatim>\<open>set_prezzo\<close> applied for each key
  present, every other station is as it was; with no station of the province the list is
  empty and the registry unchanged.
\<close>

theorem bulk_update_applies:
  assumes b: "fornisce fs kvs ''benzina'' pb"
      and d: "fornisce fs kvs ''diesel'' pd"
      and some: "pb \<noteq> None \<or> pd \<noteq> None"
  shows "api_cambia_prezzi_provincia fs (JObj kvs) prov reg =
           (Risposta 200
              (JObj [(''aggiornati'',
                      JArr (map JInt (map id' (filter (stessa_provincia prov) reg))))]),
            map (\<lambda>s. if stessa_provincia prov s then con_prezzi pb pd s else s) reg)
       \<and> (\<forall>p s. pb = Some p \<longrightarrow>
              set_prezzo ''benzina'' p s = (Returns (), s\<lparr>prezzo_benzina := p\<rparr>))
       \<and> (\<forall>p s. pd = Some p \<longrightarrow>
              set_prezzo ''diesel'' p s = (Returns (), s\<lparr>prezzo_diesel := p\<rparr>))
       \<and> (\<forall>s. con_prezzi pb pd s =
              s\<lparr>prezzo_benzina := (case pb of None \<Rightarrow> prezzo_benzina s | Some p \<Rightarrow> p),
                prezzo_diesel := (case pd of None \<Rightarrow> prezzo_diesel s | Some p \<Rightarrow> p)\<rparr>)
       \<and> (filter (stessa_provincia prov) reg = [] \<longrightarrow>
            api_cambia_prezzi_provincia fs (JObj kvs) prov reg =
              (Risposta 200 (JObj [(''aggiornati'', JArr [])]), reg))"
proof -
  from valida_fornisce [OF b d some] obtain np where
    v: "valida fs (JObj kvs) = Inr np" and
    nb: "map_of np ''benzina'' = pb" and nd: "map_of np ''diesel'' = pd"
    by blast
  have pb: "non_negativi pb"
    using b by (rule fornisce_non_negativi)
  have pd: "non_negativi pd"
    using d by (rule fornisce_non_negativi)
  have main: "api_cambia_prezzi_provincia fs (JObj kvs) prov reg =
           (Risposta 200
              (JObj [(''aggiornati'',
                      JArr (map JInt (map id' (filter (stessa_provincia prov) reg))))]),
            map (\<lambda>s. if stessa_provincia prov s then con_prezzi pb pd s else s) reg)"
    using api_ok [OF v, of prov reg] pb pd by (simp add: nb nd)
  have none: "filter (stessa_provincia prov) reg = [] \<Longrightarrow>
      map (\<lambda>s. if stessa_provincia prov s then con_prezzi pb pd s else s) reg = reg"
    by (induction reg) (auto split: if_splits)
  have sb: "\<forall>p s. pb = Some p \<longrightarrow>
              set_prezzo ''benzina'' p s = (Returns (), s\<lparr>prezzo_benzina := p\<rparr>)"
    using pb by (auto simp: non_negativi_def set_prezzo_def)
  have sd: "\<forall>p s. pd = Some p \<longrightarrow>
              set_prezzo ''diesel'' p s = (Returns (), s\<lparr>prezzo_diesel := p\<rparr>)"
    using pd by (auto simp: non_negativi_def set_prezzo_def)
  show ?thesis
    using main none sb sd con_prezzi_fields [OF pb pd] by simp
qed

theorem bulk_update_applies_witness:
  "fst (api_cambia_prezzi_provincia (\<lambda>s. None)
          (JObj [(''benzina'', JFloat 1.77), (''diesel'', JFloat 1.66)]) ''mi'' distributori)
     = Risposta 200 (JObj [(''aggiornati'', JArr [JInt 1, JInt 2])])
   \<and> map prezzo_benzina (snd (api_cambia_prezzi_provincia (\<lambda>s. None)
          (JObj [(''benzina'', JFloat 1.77), (''diesel'', JFloat 1.66)]) ''mi'' distributori))
     = [1.77, 1.77, 1.95]
   \<and> map prezzo_diesel (snd (api_cambia_prezzi_provincia (\<lambda>s. None)
          (JObj [(''benzina'', JFloat 1.77), (''diesel'', JFloat 1.66)]) ''mi'' distributori))
     = [1.66, 1.66, 1.85]
   \<and> api_cambia_prezzi_provincia (\<lambda>s. None)
          (JObj [(''benzina'', JFloat 1.77), (''diesel'', JFloat 1.66)]) ''XX'' distributori
     = (Risposta 200 (JObj [(''aggiornati'', JArr [])]), distributori)"
proof -
  let ?kvs = "[(''benzina'', JFloat 1.77), (''diesel'', JFloat 1.66)]"
  have b: "fornisce (\<lambda>s. None) ?kvs ''benzina'' (Some 1.77)"
    by (simp add: fornisce_def)
  have d: "fornisce (\<lambda>s. None) ?kvs ''diesel'' (Some 1.66)"
    by (simp add: fornisce_def)
  have some: "Some (1.77::real) \<noteq> None \<or> Some (1.66::real) \<noteq> None"
    by simp
  let ?upd = "\<lambda>s. if stessa_provincia ''mi'' s
                   then con_prezzi (Some 1.77) (Some 1.66) s else s"
  note mi = bulk_update_applies [OF b d some, of "''mi''" distributori]
  note xx = bulk_update_applies [OF b d some, of "''XX''" distributori]
  have fxx: "filter (stessa_provincia ''XX'') distributori = []"
    by (simp add: distributori_def stessa_provincia_def lower_seed)
  with xx have r2: "api_cambia_prezzi_provincia (\<lambda>s. None) (JObj ?kvs) ''XX'' distributori
      = (Risposta 200 (JObj [(''aggiornati'', JArr [])]), distributori)"
    by blast
  from mi have r1: "api_cambia_prezzi_provincia (\<lambda>s. None) (JObj ?kvs) ''mi'' distributori
      = (Risposta 200 (JObj [(''aggiornati'',
           JArr (map JInt (map id' (filter (stessa_provincia ''mi'') distributori))))]),
         map ?upd distributori)"
    by blast
  from mi have cp: "\<forall>s. con_prezzi (Some 1.77) (Some 1.66) s
      = s\<lparr>prezzo_benzina := 1.77, prezzo_diesel := 1.66\<rparr>"
    by simp
  have ids: "map id' (filter (stessa_provincia ''mi'') distributori) = [1, 2]"
    by (simp add: distributori_def stessa_provincia_def lower_seed)
  have pb: "map prezzo_benzina (map ?upd distributori) = [1.77, 1.77, 1.95]"
    using cp by (simp add: distributori_def stessa_provincia_def lower_seed)
  have pd: "map prezzo_diesel (map ?upd distributori) = [1.66, 1.66, 1.85]"
    using cp by (simp add: distributori_def stessa_provincia_def lower_seed)
  show ?thesis
    by (simp only: r1 r2 ids pb pd fst_conv snd_conv list.map simp_thms)
qed

text \<open>
  C6. The body \<^verbatim>\<open>{"benzina": 1.5, "diesel": -1.5}\<close> for province MI on the seed registry
  passes the validation; \<^verbatim>\<open>set_prezzo\<close> raises \<^verbatim>\<open>ValueError("Prezzo negativo")\<close> inside
  the loop at station 1, after its benzina price was set; nothing catches it (HTTP 500).
  Station 1 is left with the new benzina price and the old diesel price. The body
  \<^verbatim>\<open>{"diesel": -1.5}\<close> of \<^verbatim>\<open>test_put_prezzi_negativi\<close> ends the same way, with the registry
  as it was.
\<close>

theorem bulk_update_negative_price_unhandled:
  "api_cambia_prezzi_provincia float_str
      (JObj [(''benzina'', JFloat 1.5), (''diesel'', JFloat (-1.5))]) ''MI'' distributori
     = (NonGestita (ValueError ''Prezzo negativo''),
        distributori[0 := (distributori ! 0)\<lparr>prezzo_benzina := 1.5\<rparr>])
   \<and> status (fst (api_cambia_prezzi_provincia float_str
      (JObj [(''benzina'', JFloat 1.5), (''diesel'', JFloat (-1.5))]) ''MI'' distributori)) = 500
   \<and> map prezzo_benzina (snd (api_cambia_prezzi_provincia float_str
      (JObj [(''benzina'', JFloat 1.5), (''diesel'', JFloat (-1.5))]) ''MI'' distributori))
       = [1.5, 1.92, 1.95]
   \<and> map prezzo_diesel (snd (api_cambia_prezzi_provincia float_str
      (JObj [(''benzina'', JFloat 1.5), (''diesel'', JFloat (-1.5))]) ''MI'' distributori))
       = [1.80, 1.82, 1.85]
   \<and> valida float_str (JObj [(''benzina'', JFloat 1.5), (''diesel'', JFloat (-1.5))])
       = Inr [(''benzina'', 1.5), (''diesel'', -1.5)]
   \<and> api_cambia_prezzi_provincia float_str (JObj [(''diesel'', JFloat (-1.5))]) ''MI'' distributori
     = (NonGestita (ValueError ''Prezzo negativo''), distributori)"
  by (simp add: api_cambia_prezzi_provincia_def valida_def leggi_prezzo_def distributori_def
        applica_prezzi_def set_prezzo_def stessa_provincia_def lower_seed)

subsection \<open>Facts about the levels endpoint of a province\<close>

text \<open>
  C8, as the two files have it. For every registry and province code the response is
  HTTP 200 with the stations whose province equals the code up to case, in registry order
  (none: the empty array), and the registry is unchanged; lowering the code's letters does
  not change which stations are selected. \<^verbatim>\<open>app.py\<close> serialises each of
  them with the eight level-view fields and no other; \<^verbatim>\<open>api_server.py\<close> serialises each
  with \<^verbatim>\<open>to_dict\<close>, whose fourteen fields are those eight, with the same values, and
  provincia, indirizzo, lat, lon, prezzo_benzina, prezzo_diesel.
\<close>

theorem livelli_provincia_views:
  "api_livelli_provincia prov reg
     = (Risposta 200 (JArr (map livelli_view (filter (stessa_provincia prov) reg))), reg)
   \<and> api_livelli_provincia_api_server prov reg
     = (Risposta 200 (JArr (map to_dict_api_server (filter (stessa_provincia prov) reg))), reg)
   \<and> stessa_provincia prov d = (lower (provincia d) = lower prov)
   \<and> stessa_provincia (lower prov) d = stessa_provincia prov d
   \<and> chiavi (livelli_view d)
     = [''id'', ''nome'', ''livello_benzina'', ''capacita_benzina'', ''percent_benzina'',
        ''livello_diesel'', ''capacita_diesel'', ''percent_diesel'']
   \<and> chiavi (to_dict_api_server d)
     = [''id'', ''nome'', ''provincia'', ''indirizzo'', ''lat'', ''lon'',
        ''prezzo_benzina'', ''prezzo_diesel'',
        ''livello_benzina'', ''capacita_benzina'', ''percent_benzina'',
        ''livello_diesel'', ''capacita_diesel'', ''percent_diesel'']
   \<and> set (campi (livelli_view d)) \<subseteq> set (campi (to_dict_api_server d))"
  by (simp add: api_livelli_provincia_def api_livelli_provincia_api_server_def Let_def
        stessa_provincia_def lower_idem livelli_view_def to_dict_api_server_def)

text \<open>
  C8 as stated fails on \<^verbatim>\<open>api_server.py\<close>: for province MI on the seed registry each of
  the two objects returned has fourteen keys, not the eight of the level view.
\<close>

theorem livelli_provincia_api_server_counterexample:
  "map chiavi (elementi (fst (api_livelli_provincia_api_server ''MI'' distributori)))
     = [[''id'', ''nome'', ''provincia'', ''indirizzo'', ''lat'', ''lon'',
         ''prezzo_benzina'', ''prezzo_diesel'',
         ''livello_benzina'', ''capacita_benzina'', ''percent_benzina'',
         ''livello_diesel'', ''capacita_diesel'', ''percent_diesel''],
        [''id'', ''nome'', ''provincia'', ''indirizzo'', ''lat'', ''lon'',
         ''prezzo_benzina'', ''prezzo_diesel'',
         ''livello_benzina'', ''capacita_benzina'', ''percent_benzina'',
         ''livello_diesel'', ''capacita_diesel'', ''percent_diesel'']]
   \<and> map chiavi (elementi (fst (api_livelli_provincia_api_server ''MI'' distributori)))
     \<noteq> [[''id'', ''nome'', ''livello_benzina'', ''capacita_benzina'', ''percent_benzina'',
         ''livello_diesel'', ''capacita_diesel'', ''percent_diesel''],
        [''id'', ''nome'', ''livello_benzina'', ''capacita_benzina'', ''percent_benzina'',
         ''livello_diesel'', ''capacita_diesel'', ''percent_diesel'']]"
  by (simp add: api_livelli_provincia_api_server_def distributori_def stessa_provincia_def
        lower_seed to_dict_api_server_def)

subsection \<open>Facts about the validation of the bulk price update\<close>

lemma fallisce_leggi:
  "fallisce fs kvs k \<Longrightarrow>
     leggi_prezzo fs k (JObj kvs) np
       = Inl (Risposta 400 (errore (''Prezzo '' @ k @ '' non valido'')))"
  by (auto simp: fallisce_def leggi_prezzo_JObj split: option.splits outcome.splits)

lemma non_fallisce_leggi:
  "\<not> fallisce fs kvs k \<Longrightarrow>
     leggi_prezzo fs k (JObj kvs) np
       = Inr (case convertito fs kvs k of None \<Rightarrow> np | Some x \<Rightarrow> dict_set k x np)"
  by (auto simp: fallisce_def convertito_def leggi_prezzo_JObj
           split: option.splits outcome.splits)

lemma convertito_None:
  "\<not> fallisce fs kvs k \<Longrightarrow> (convertito fs kvs k = None) = (map_of kvs k = None)"
  by (auto simp: fallisce_def convertito_def split: option.splits outcome.splits)

lemma valida_JObj:
  assumes "kvs \<noteq> []"
  shows "valida fs (JObj kvs) =
     (if fallisce fs kvs ''benzina''
        then Inl (Risposta 400 (errore ''Prezzo benzina non valido''))
      else if fallisce fs kvs ''diesel''
        then Inl (Risposta 400 (errore ''Prezzo diesel non valido''))
      else if map_of kvs ''benzina'' = None \<and> map_of kvs ''diesel'' = None
        then Inl (Risposta 400 (errore ''Nessun prezzo fornito''))
      else Inr (prezzi_convertiti fs kvs))"
proof (cases "fallisce fs kvs ''benzina''")
  case True
  with assms show ?thesis
    by (simp add: valida_def fallisce_leggi)
next
  case nb: False
  show ?thesis
  proof (cases "fallisce fs kvs ''diesel''")
    case True
    with assms nb show ?thesis
      by (simp add: valida_def fallisce_leggi non_fallisce_leggi)
  next
    case nd: False
    have cb: "(convertito fs kvs ''benzina'' = None) = (map_of kvs ''benzina'' = None)"
      using nb by (rule convertito_None)
    have cd: "(convertito fs kvs ''diesel'' = None) = (map_of kvs ''diesel'' = None)"
      using nd by (rule convertito_None)
    show ?thesis
      using assms nb nd cb cd
      by (cases "convertito fs kvs ''benzina''"; cases "convertito fs kvs ''diesel''")
         (simp_all add: valida_def non_fallisce_leggi prezzi_convertiti_def)
  qed
qed

lemma api_rejected:
  "valida fs data = Inl r \<Longrightarrow> api_cambia_prezzi_provincia fs data prov reg = (r, reg)"
  by (simp add: api_cambia_prezzi_provincia_def)


lemma valida_falsy:
  "\<not> truthy data \<Longrightarrow> valida fs data = Inl (Risposta 400 (errore ''Richiesta JSON mancante''))"
  by (simp add: valida_def)

lemma valida_JArr: "\<exists>r. valida fs (JArr xs) = Inl r \<and> status r = 400"
  by (auto simp: valida_def leggi_prezzo_def)

lemma valida_JStr: "\<exists>r. valida fs (JStr s) = Inl r \<and> status r = 400"
  by (auto simp: valida_def leggi_prezzo_def)

text \<open>
  C7, as the code has it. The update answers HTTP 400 and leaves every station as it was
  when the body is missing or malformed (\<^verbatim>\<open>get_json\<close> gives \<^verbatim>\<open>None\<close>) or otherwise
  falsy, when it is an object with neither benzina nor diesel, and when it is an object
  with a benzina or diesel value on which \<^verbatim>\<open>float\<close> raises, as on
  \<^verbatim>\<open>{"benzina": "abc"}\<close>; an array or a string as body is answered with 400 as well.
\<close>

theorem bulk_update_rejects_bad_body:
  "(\<not> truthy data \<longrightarrow>
      api_cambia_prezzi_provincia fs data prov reg
        = (Risposta 400 (errore ''Richiesta JSON mancante''), reg))
   \<and> (kvs \<noteq> [] \<and> map_of kvs ''benzina'' = None \<and> map_of kvs ''diesel'' = None \<longrightarrow>
      api_cambia_prezzi_provincia fs (JObj kvs) prov reg
        = (Risposta 400 (errore ''Nessun prezzo fornito''), reg))
   \<and> (fallisce fs kvs ''benzina'' \<longrightarrow>
      api_cambia_prezzi_provincia fs (JObj kvs) prov reg
        = (Risposta 400 (errore ''Prezzo benzina non valido''), reg))
   \<and> (fallisce fs kvs ''diesel'' \<longrightarrow>
      status (fst (api_cambia_prezzi_provincia fs (JObj kvs) prov reg)) = 400
      \<and> snd (api_cambia_prezzi_provincia fs (JObj kvs) prov reg) = reg)
   \<and> (fs ''abc'' = None \<longrightarrow>
      api_cambia_prezzi_provincia fs (JObj [(''benzina'', JStr ''abc'')]) prov reg
        = (Risposta 400 (errore ''Prezzo benzina non valido''), reg))
   \<and> status (fst (api_cambia_prezzi_provincia fs (JArr xs) prov reg)) = 400
   \<and> snd (api_cambia_prezzi_provincia fs (JArr xs) prov reg) = reg
   \<and> status (fst (api_cambia_prezzi_provincia fs (JStr s) prov reg)) = 400
   \<and> snd (api_cambia_prezzi_provincia fs (JStr s) prov reg) = reg"
proof -
  have falsy: "\<not> truthy data \<Longrightarrow>
      api_cambia_prezzi_provincia fs data prov reg
        = (Risposta 400 (errore ''Richiesta JSON mancante''), reg)"
    by (simp add: api_rejected valida_falsy)
  have nessuno: "kvs \<noteq> [] \<and> map_of kvs ''benzina'' = None \<and> map_of kvs ''diesel'' = None \<Longrightarrow>
      api_cambia_prezzi_provincia fs (JObj kvs) prov reg
        = (Risposta 400 (errore ''Nessun prezzo fornito''), reg)"
    by (rule api_rejected) (simp add: valida_JObj fallisce_def)
  have ne: "fallisce fs kvs k \<Longrightarrow> kvs \<noteq> []" for k
    by (auto simp: fallisce_def)
  have benzina: "fallisce fs kvs ''benzina'' \<Longrightarrow>
      api_cambia_prezzi_provincia fs (JObj kvs) prov reg
        = (Risposta 400 (errore ''Prezzo benzina non valido''), reg)"
    by (rule api_rejected) (simp add: valida_JObj ne)
  have diesel: "fallisce fs kvs ''diesel'' \<Longrightarrow>
      status (fst (api_cambia_prezzi_provincia fs (JObj kvs) prov reg)) = 400
      \<and> snd (api_cambia_prezzi_provincia fs (JObj kvs) prov reg) = reg"
  proof -
    assume f: "fallisce fs kvs ''diesel''"
    then have "kvs \<noteq> []" by (rule ne)
    with f have "\<exists>r. valida fs (JObj kvs) = Inl r \<and> status r = 400"
      by (simp add: valida_JObj)
    then show ?thesis
      by (auto simp: api_rejected)
  qed
  have abc: "fs ''abc'' = None \<Longrightarrow>
      api_cambia_prezzi_provincia fs (JObj [(''benzina'', JStr ''abc'')]) prov reg
        = (Risposta 400 (errore ''Prezzo benzina non valido''), reg)"
    by (rule api_rejected) (simp add: valida_JObj fallisce_def)
  have arr: "status (fst (api_cambia_prezzi_provincia fs (JArr xs) prov reg)) = 400
      \<and> snd (api_cambia_prezzi_provincia fs (JArr xs) prov reg) = reg"
    using valida_JArr [of fs xs] by (auto simp: api_rejected)
  have str: "status (fst (api_cambia_prezzi_provincia fs (JStr s) prov reg)) = 400
      \<and> snd (api_cambia_prezzi_provincia fs (JStr s) prov reg) = reg"
    using valida_JStr [of fs s] by (auto simp: api_rejected)
  from falsy nessuno benzina diesel abc arr str show ?thesis
    by blast
qed

theorem bulk_update_rejects_bad_body_witness:
  "api_cambia_prezzi_provincia (\<lambda>s. None) JNull ''MI'' distributori
     = (Risposta 400 (errore ''Richiesta JSON mancante''), distributori)
   \<and> api_cambia_prezzi_provincia (\<lambda>s. None) (JObj [(''gpl'', JFloat 1)]) ''MI'' distributori
     = (Risposta 400 (errore ''Nessun prezzo fornito''), distributori)
   \<and> api_cambia_prezzi_provincia (\<lambda>s. None) (JObj [(''benzina'', JStr ''abc'')]) ''MI''
       distributori
     = (Risposta 400 (errore ''Prezzo benzina non valido''), distributori)
   \<and> status (fst (api_cambia_prezzi_provincia (\<lambda>s. None)
       (JObj [(''benzina'', JFloat 1), (''diesel'', JNull)]) ''MI'' distributori)) = 400
   \<and> snd (api_cambia_prezzi_provincia (\<lambda>s. None)
       (JObj [(''benzina'', JFloat 1), (''diesel'', JNull)]) ''MI'' distributori) = distributori"
  using bulk_update_rejects_bad_body
          [of JNull "\<lambda>s. None" "''MI''" distributori "[(''gpl'', JFloat 1)]"]
        bulk_update_rejects_bad_body
          [of JNull "\<lambda>s. None" "''MI''" distributori "[(''benzina'', JStr ''abc'')]"]
        bulk_update_rejects_bad_body
          [of JNull "\<lambda>s. None" "''MI''" distributori
              "[(''benzina'', JFloat 1), (''diesel'', JNull)]"]
  by (simp add: fallisce_def)

text \<open>
  C7 as stated fails in two places. The body \<^verbatim>\<open>{"benzina": true}\<close> has a price value that
  is not a number: \<^verbatim>\<open>float(True)\<close> is 1.0, the request for MI on the seed registry is
  answered 200 and stations 1 and 2 get the benzina price 1. The body \<^verbatim>\<open>5\<close> has neither
  key: \<^verbatim>\<open>'benzina' in 5\<close> raises TypeError outside the \<^verbatim>\<open>try\<close> and the request ends in
  HTTP 500.
\<close>

theorem bulk_update_bad_body_counterexample:
  "fst (api_cambia_prezzi_provincia (\<lambda>s. None) (JObj [(''benzina'', JBool True)]) ''MI''
          distributori)
     = Risposta 200 (JObj [(''aggiornati'', JArr [JInt 1, JInt 2])])
   \<and> map prezzo_benzina
         (snd (api_cambia_prezzi_provincia (\<lambda>s. None) (JObj [(''benzina'', JBool True)]) ''MI''
                 distributori))
     = [1, 1, 1.95]
   \<and> api_cambia_prezzi_provincia (\<lambda>s. None) (JInt 5) ''MI'' distributori
     = (NonGestita TypeError, distributori)
   \<and> status (fst (api_cambia_prezzi_provincia (\<lambda>s. None) (JInt 5) ''MI'' distributori)) = 500"
  by (simp add: api_cambia_prezzi_provincia_def valida_def leggi_prezzo_def distributori_def
        applica_prezzi_def set_prezzo_def stessa_provincia_def lower_seed)

text \<open>\<^verbatim>\<open>float(10**400)\<close> raises OverflowError, so the body \<^verbatim>\<open>{"benzina": 10**400}\<close> is
  answered with 400.\<close>

lemma py_float_int_overflow: "py_float fs (JInt (10 ^ 400)) = Raises OverflowError"
  by (simp add: float_int_limit_def)

lemma bulk_update_int_overflow:
  "api_cambia_prezzi_provincia fs (JObj [(''benzina'', JInt (10 ^ 400))]) prov reg
     = (Risposta 400 (errore ''Prezzo benzina non valido''), reg)"
  by (rule api_rejected) (simp add: valida_JObj fallisce_def float_int_limit_def)





end
